theory Spec2Isabelle
  imports Complex_Main
begin

section \<open>Python values, exceptions and the effect trace\<close>

text \<open>
  The provider in \<^verbatim>\<open>src/api/services/telephony/providers/lcr_provider.py\<close> reads a
  configuration of type \<^verbatim>\<open>Dict[str, Any]\<close> and returns dictionaries of the same kind.
  The values that occur are \<^verbatim>\<open>None\<close>, booleans, integers, floats, strings and lists.
\<close>

datatype pyval =
    VNone
  | VBool bool
  | VInt int
  | VFloat real
  | VStr string
  | VList "pyval list"

text \<open>Python truth-value testing: \<^verbatim>\<open>None\<close>, \<^verbatim>\<open>False\<close>, zero and empty containers are false.\<close>

fun truthy :: "pyval \<Rightarrow> bool" where
  "truthy VNone = False"
| "truthy (VBool b) = b"
| "truthy (VInt n) = (n \<noteq> 0)"
| "truthy (VFloat x) = (x \<noteq> 0)"
| "truthy (VStr s) = (s \<noteq> [])"
| "truthy (VList xs) = (xs \<noteq> [])"

text \<open>\<^verbatim>\<open>a and b\<close> evaluates to \<^verbatim>\<open>a\<close> when \<^verbatim>\<open>a\<close> is false, and to \<^verbatim>\<open>b\<close> otherwise.\<close>

definition py_and :: "pyval \<Rightarrow> pyval \<Rightarrow> pyval" where
  "py_and a b = (if truthy a then b else a)"

text \<open>
  Exceptions are values, each with its message. \<open>NonException\<close> stands for the classes
  below \<^verbatim>\<open>BaseException\<close> that are not below \<^verbatim>\<open>Exception\<close> (such as
  \<^verbatim>\<open>KeyboardInterrupt\<close>): an \<^verbatim>\<open>except Exception\<close> clause does not catch them,
  and it does not catch \<^verbatim>\<open>asyncio.CancelledError\<close> either. The classes of
  \<^verbatim>\<open>concurrent.futures\<close> and of \<^verbatim>\<open>asyncio\<close> are kept apart because the event
  loop exchanges one for the other; \<open>OtherException\<close> is every class not listed.
\<close>

datatype pyexn =
    ValueError string
  | TypeError string
  | AttributeError string
  | NotImplementedError
  | StopIteration string
  | FuturesCancelledError string
  | FuturesTimeoutError string
  | FuturesInvalidStateError string
  | AsyncioCancelledError string
  | AsyncioTimeoutError string
  | AsyncioInvalidStateError string
  | OtherException string
  | NonException string

fun is_Exception :: "pyexn \<Rightarrow> bool" where
  "is_Exception (NonException m) = False"
| "is_Exception (AsyncioCancelledError m) = False"
| "is_Exception e = True"

type_synonym pydict = "(string \<times> pyval) list"

type_synonym config = "string \<rightharpoonup> pyval"

text \<open>\<^verbatim>\<open>config.get(key, default)\<close>; \<^verbatim>\<open>config.get(key)\<close> is the case \<open>default = VNone\<close>.\<close>

definition dict_get :: "config \<Rightarrow> string \<Rightarrow> pyval \<Rightarrow> pyval" where
  "dict_get d k dflt = (case d k of None \<Rightarrow> dflt | Some v \<Rightarrow> v)"

text \<open>
  A \<^verbatim>\<open>VoIPPhone\<close> object: its identity and the arguments it was constructed with
  (server, port, user, password, \<^verbatim>\<open>myIP\<close>).
\<close>

datatype phone = VoIPPhone nat pyval int pyval pyval string

type_synonym websocket = nat

datatype level = INFO | SUCCESS | WARNING | ERROR

datatype logarg = AStr string | AVal pyval | AExn pyexn

text \<open>
  Everything the provider does to the outside world is recorded, in order: a log line
  (level, the f-string with \<^verbatim>\<open>%s\<close> at each interpolation, the interpolated values), the construction of a SIP client, the
  start of its thread, a dial, and the operations of a WebSocket (accept, send, close).
\<close>

datatype event =
    Log level string "logarg list"
  | NewPhone phone
  | StartPhone phone
  | Dial phone string
  | WsAccept websocket
  | WsSend websocket string
  | WsClose websocket

text \<open>
  The libraries the provider calls (pyVoIP, the WebSocket object, the builtin
  \<^verbatim>\<open>int\<close> on arguments that are not already integers) are parameters: each may
  return or raise.
\<close>

record env =
  int_conv :: "pyval \<Rightarrow> pyexn + int"
  VoIPPhone_init :: "phone \<Rightarrow> pyexn option"
  phone_start :: "phone \<Rightarrow> pyexn option"
  phone_call :: "phone \<Rightarrow> string \<Rightarrow> pyexn + string"
  websocket_accept :: "websocket \<Rightarrow> pyexn option"

definition py_int :: "env \<Rightarrow> pyval \<Rightarrow> pyexn + int" where
  "py_int E v = (case v of VInt n \<Rightarrow> Inr n | _ \<Rightarrow> int_conv E v)"

section \<open>The provider object\<close>

record LCRProvider =
  host :: pyval
  port :: int
  password :: pyval
  username :: pyval
  from_numbers :: pyval
  sip_client :: "phone option"

record world =
  self :: LCRProvider
  trace :: "event list"

definition emit :: "event \<Rightarrow> world \<Rightarrow> world" where
  "emit e w = w\<lparr>trace := trace w @ [e]\<rparr>"

fun sessions_created :: "event list \<Rightarrow> nat" where
  "sessions_created [] = 0"
| "sessions_created (NewPhone ph # es) = Suc (sessions_created es)"
| "sessions_created (e # es) = sessions_created es"

text \<open>
  Modelled from the spec: the class \<^verbatim>\<open>CallInitiationResult\<close> of
  \<^verbatim>\<open>api.services.telephony.base\<close> is not among the sources; the spec gives its
  fields (call id, status, provider tag, metadata mapping).
\<close>

record CallInitiationResult =
  call_id :: string
  status :: string
  provider :: string
  metadata :: pydict

text \<open>\<^verbatim>\<open>LCRProvider.__init__\<close> (lines 39-53).\<close>

definition LCRProvider_init :: "env \<Rightarrow> config \<Rightarrow> pyexn + LCRProvider" where
  "LCRProvider_init E config =
     (case py_int E (dict_get config ''port'' (VInt 5060)) of
        Inl e \<Rightarrow> Inl e
      | Inr p \<Rightarrow>
          let fn = dict_get config ''from_numbers'' (VList []) in
          Inr \<lparr> host = dict_get config ''host'' (VStr ''trunksip11.lcrcom.es''),
                port = p,
                password = dict_get config ''auth_token'' VNone,
                username = dict_get config ''api_key'' VNone,
                from_numbers = (case fn of VStr s \<Rightarrow> VList [VStr s] | _ \<Rightarrow> fn),
                sip_client = None \<rparr>)"

text \<open>\<^verbatim>\<open>validate_config\<close> (lines 139-140).\<close>

definition validate_config :: "world \<Rightarrow> (pyexn + bool) \<times> world" where
  "validate_config w =
     (Inr (truthy (py_and (py_and (host (self w)) (password (self w))) (username (self w)))), w)"

text \<open>
  Lines 62-78 of \<^verbatim>\<open>_get_sip_client\<close>, the body of \<^verbatim>\<open>if not self.sip_client\<close>.
  The attribute is assigned once the constructor has returned, before \<^verbatim>\<open>start()\<close>.
  The identity of the new object is the number of clients constructed so far. The
  callback \<^verbatim>\<open>_on_call_event\<close> is only registered here; pyVoIP calls it later on its
  own thread.
\<close>

definition create_sip_client :: "env \<Rightarrow> world \<Rightarrow> pyexn option \<times> world" where
  "create_sip_client E w =
     (case validate_config w of
        (Inl e, w1) \<Rightarrow> (Some e, w1)
      | (Inr ok, w1) \<Rightarrow>
          (if \<not> ok then (Some (ValueError ''LCR SIP credentials missing''), w1)
           else
             (let w2 = emit (Log INFO ''Initializing SIP Client for %s@%s...''
                              [AVal (username (self w1)), AVal (host (self w1))]) w1;
                  ph = VoIPPhone (sessions_created (trace w2)) (host (self w2)) (port (self w2))
                         (username (self w2)) (password (self w2)) ''0.0.0.0'';
                  w3 = emit (NewPhone ph) w2
              in (case VoIPPhone_init E ph of
                    Some e \<Rightarrow> (Some e, w3)
                  | None \<Rightarrow>
                      (let w4 = w3\<lparr>self := (self w3)\<lparr>sip_client := Some ph\<rparr>\<rparr>;
                           w5 = emit (StartPhone ph) w4
                       in (case phone_start E ph of
                             Some e \<Rightarrow> (Some e, w5)
                           | None \<Rightarrow>
                               (None, emit (Log SUCCESS ''SIP Client started'' []) w5)))))))"

text \<open>
  \<^verbatim>\<open>_get_sip_client\<close> (lines 55-80): the test of line 61, the body above, and
  \<^verbatim>\<open>return self.sip_client\<close> of line 80, which reads the attribute again.
  A \<^verbatim>\<open>VoIPPhone\<close> object is true (the class defines neither \<^verbatim>\<open>__bool__\<close> nor
  \<^verbatim>\<open>__len__\<close>), so \<^verbatim>\<open>not self.sip_client\<close> holds exactly when the attribute is
  \<^verbatim>\<open>None\<close>.
\<close>

definition get_sip_client :: "env \<Rightarrow> world \<Rightarrow> (pyexn + phone option) \<times> world" where
  "get_sip_client E w =
     (case (if sip_client (self w) = None then create_sip_client E w else (None, w)) of
        (Some e, w1) \<Rightarrow> (Inl e, w1)
      | (None, w1) \<Rightarrow> (Inr (sip_client (self w1)), w1))"

text \<open>
  \<^verbatim>\<open>_do_sip_call\<close> (lines 88-98). The session is obtained outside the
  \<^verbatim>\<open>try\<close>; the dial is inside it, and \<^verbatim>\<open>except Exception\<close> logs and re-raises.
  \<open>dial_phone\<close> is the body of the \<^verbatim>\<open>try\<close>: \<^verbatim>\<open>phone.call(to_number)\<close> and
  \<^verbatim>\<open>str(call.callID)\<close>, which the library answers with the call id or an exception.
\<close>

definition dial_phone :: "env \<Rightarrow> phone option \<Rightarrow> string \<Rightarrow> world \<Rightarrow> (pyexn + string) \<times> world" where
  "dial_phone E pho to_number w =
     (case pho of
        None \<Rightarrow> (Inl (AttributeError ''NoneType object has no attribute call''), w)
      | Some ph \<Rightarrow> (phone_call E ph to_number, emit (Dial ph to_number) w))"

definition do_sip_call :: "env \<Rightarrow> string \<Rightarrow> world \<Rightarrow> (pyexn + string) \<times> world" where
  "do_sip_call E to_number w =
     (case get_sip_client E w of
        (Inl e, w1) \<Rightarrow> (Inl e, w1)
      | (Inr pho, w1) \<Rightarrow>
          (case dial_phone E pho to_number w1 of
             (Inr cid, w2) \<Rightarrow> (Inr cid, w2)
           | (Inl e, w2) \<Rightarrow>
               (Inl e, if is_Exception e
                       then emit (Log ERROR ''SIP Dial Error: %s'' [AExn e]) w2
                       else w2)))"

text \<open>
  \<^verbatim>\<open>await loop.run_in_executor(executor, fn, arg)\<close>: the worker thread runs the
  job, and the event loop copies the outcome of the worker's future into the future the
  coroutine awaits (\<^verbatim>\<open>asyncio.futures._copy_future_state\<close>). A result is copied
  as it is. An exception first goes through \<^verbatim>\<open>_convert_future_exc\<close>, which
  exchanges the three classes of \<^verbatim>\<open>concurrent.futures\<close> for those of
  \<^verbatim>\<open>asyncio\<close> and keeps every other exception; then \<^verbatim>\<open>set_exception\<close>
  refuses a \<^verbatim>\<open>StopIteration\<close>, so the awaited future is never completed and the
  coroutine never resumes: \<open>None\<close>. The task that awaits is taken not to be cancelled
  from outside while it waits.
\<close>

fun convert_future_exc :: "pyexn \<Rightarrow> pyexn" where
  "convert_future_exc (FuturesCancelledError m) = AsyncioCancelledError m"
| "convert_future_exc (FuturesTimeoutError m) = AsyncioTimeoutError m"
| "convert_future_exc (FuturesInvalidStateError m) = AsyncioInvalidStateError m"
| "convert_future_exc e = e"

fun relayed :: "pyexn \<Rightarrow> pyexn option" where
  "relayed (StopIteration m) = None"
| "relayed e = Some (convert_future_exc e)"

definition run_in_executor ::
  "(world \<Rightarrow> (pyexn + 'a) \<times> world) \<Rightarrow> world \<Rightarrow> (pyexn + 'a) option \<times> world" where
  "run_in_executor job w =
     (case job w of
        (Inr x, w1) \<Rightarrow> (Some (Inr x), w1)
      | (Inl e, w1) \<Rightarrow>
          (case relayed e of
             None \<Rightarrow> (None, w1)
           | Some e' \<Rightarrow> (Some (Inl e'), w1)))"

text \<open>
  \<^verbatim>\<open>initiate_call\<close> (lines 100-129). The outcome is \<open>None\<close> when the coroutine
  never resumes from its \<^verbatim>\<open>await\<close>; otherwise it is the result or the exception
  raised. \<^verbatim>\<open>except Exception\<close> logs and re-raises what it catches.
\<close>

definition initiate_call ::
  "env \<Rightarrow> string \<Rightarrow> string \<Rightarrow> int option \<Rightarrow> world
     \<Rightarrow> (pyexn + CallInitiationResult) option \<times> world" where
  "initiate_call E to_number webhook_url workflow_run_id w =
     (let w0 = emit (Log INFO ''Initiating LCR SIP call to %s using %s...''
                       [AStr to_number, AVal (username (self w))]) w
      in case run_in_executor (do_sip_call E to_number) w0 of
           (None, w1) \<Rightarrow> (None, w1)
         | (Some (Inr cid), w1) \<Rightarrow>
             (Some (Inr \<lparr> call_id = cid, status = ''ringing'', provider = ''lcr'',
                          metadata = [(''sip_host'', host (self w1))] \<rparr>), w1)
         | (Some (Inl e), w1) \<Rightarrow>
             (Some (Inl e), if is_Exception e
                            then emit (Log ERROR ''Failed to initiate SIP call: %s'' [AExn e]) w1
                            else w1))"

text \<open>The remaining methods of the contract that the claims are about.\<close>

definition get_call_status :: "string \<Rightarrow> world \<Rightarrow> (pyexn + pydict) \<times> world" where
  "get_call_status cid w =
     (Inr [(''status'', VStr ''in-progress''), (''call_id'', VStr cid)], w)"

definition get_available_phone_numbers :: "world \<Rightarrow> (pyexn + pyval) \<times> world" where
  "get_available_phone_numbers w = (Inr (from_numbers (self w)), w)"

definition get_call_cost :: "string \<Rightarrow> world \<Rightarrow> (pyexn + pydict) \<times> world" where
  "get_call_cost cid w = (Inr [(''cost_usd'', VFloat 0)], w)"

definition handle_websocket ::
  "env \<Rightarrow> websocket \<Rightarrow> int \<Rightarrow> int \<Rightarrow> int \<Rightarrow> world \<Rightarrow> (pyexn + unit) \<times> world" where
  "handle_websocket E ws workflow_id user_id workflow_run_id w =
     (let w1 = emit (WsAccept ws) w
      in case websocket_accept E ws of
           Some e \<Rightarrow> (Inl e, w1)
         | None \<Rightarrow>
             (Inr (), emit (Log WARNING
                ''LCR SIP does not support WebSocket media bridging yet.'' []) w1))"

definition can_handle_webhook :: "config \<Rightarrow> (string \<rightharpoonup> string) \<Rightarrow> world \<Rightarrow> (pyexn + bool) \<times> world" where
  "can_handle_webhook webhook_data headers w = (Inr False, w)"

text \<open>
  The class \<^verbatim>\<open>NormalizedInboundData\<close> of \<^verbatim>\<open>api.services.telephony.base\<close> is not
  among the sources, and this provider never builds a value of it.
\<close>

typedecl NormalizedInboundData

definition parse_inbound_webhook ::
  "config \<Rightarrow> world \<Rightarrow> (pyexn + NormalizedInboundData) \<times> world" where
  "parse_inbound_webhook webhook_data w = (Inl NotImplementedError, w)"


section \<open>Worker threads in \<^verbatim>\<open>_get_sip_client\<close>\<close>

text \<open>
  \<^verbatim>\<open>initiate_call\<close> submits \<^verbatim>\<open>_do_sip_call\<close> to the class-wide
  \<^verbatim>\<open>ThreadPoolExecutor(max_workers=5)\<close>, so several worker threads can be inside
  \<^verbatim>\<open>_get_sip_client\<close> of one provider at once. The method takes no lock. A thread
  is at the test of line 61, at the body of lines 62-78, at the \<^verbatim>\<open>return\<close> of
  line 80, or has returned. A step runs one of these three pieces without interruption;
  the interpreter may switch threads at finer points as well, so every schedule below is
  one the program can take.
\<close>

datatype pc = L61 | L62 | L80 | Returned "pyexn + phone option"

fun thread_step :: "env \<Rightarrow> pc \<Rightarrow> world \<Rightarrow> pc \<times> world" where
  "thread_step E L61 w = (if sip_client (self w) = None then L62 else L80, w)"
| "thread_step E L62 w =
     (case create_sip_client E w of
        (Some e, w1) \<Rightarrow> (Returned (Inl e), w1)
      | (None, w1) \<Rightarrow> (L80, w1))"
| "thread_step E L80 w = (Returned (Inr (sip_client (self w))), w)"
| "thread_step E (Returned r) w = (Returned r, w)"

text \<open>A schedule names, step by step, the thread that runs next.\<close>

fun run_schedule :: "env \<Rightarrow> nat list \<Rightarrow> pc list \<times> world \<Rightarrow> pc list \<times> world" where
  "run_schedule E [] s = s"
| "run_schedule E (i # sched) (pcs, w) =
     (if i < length pcs
      then (case thread_step E (pcs ! i) w of
              (pc', w') \<Rightarrow> run_schedule E sched (pcs[i := pc'], w'))
      else run_schedule E sched (pcs, w))"

text \<open>
  Where a thread may be once the session \<open>ph\<close> is held by the provider and the thread
  has not created one itself: before the test, at the \<^verbatim>\<open>return\<close>, or returned
  with \<open>ph\<close>.
\<close>

fun sees_session :: "phone \<Rightarrow> pc \<Rightarrow> bool" where
  "sees_session ph L61 = True"
| "sees_session ph L62 = False"
| "sees_session ph L80 = True"
| "sees_session ph (Returned r) = (r = Inr (Some ph))"

text \<open>\<open>n\<close> calls of \<^verbatim>\<open>_get_sip_client\<close> one after the other, with their results.\<close>

fun get_sip_client_n :: "env \<Rightarrow> nat \<Rightarrow> world \<Rightarrow> (pyexn + phone option) list \<times> world" where
  "get_sip_client_n E 0 w = ([], w)"
| "get_sip_client_n E (Suc n) w =
     (case get_sip_client E w of
        (r, w1) \<Rightarrow> (case get_sip_client_n E n w1 of (rs, w2) \<Rightarrow> (r # rs, w2)))"

section \<open>Scenarios\<close>

text \<open>
  A provider built from a configuration, followed by one call of
  \<^verbatim>\<open>_get_sip_client\<close>: the result and the effects.
\<close>

definition session_for_config :: "env \<Rightarrow> config \<Rightarrow> (pyexn + phone option) \<times> event list" where
  "session_for_config E config =
     (case LCRProvider_init E config of
        Inl e \<Rightarrow> (Inl e, [])
      | Inr p \<Rightarrow> (case get_sip_client E \<lparr>self = p, trace = []\<rparr> of (r, w) \<Rightarrow> (r, trace w)))"

text \<open>What a handler tells the peer of a socket: what it sends, and the close.\<close>

fun is_peer_signal :: "websocket \<Rightarrow> event \<Rightarrow> bool" where
  "is_peer_signal ws (WsSend ws' m) = (ws' = ws)"
| "is_peer_signal ws (WsClose ws') = (ws' = ws)"
| "is_peer_signal ws e = False"

text \<open>
  Libraries in which every call succeeds, libraries whose dial finds no transport, and
  libraries whose dial raises \<^verbatim>\<open>StopIteration\<close>.
\<close>

definition lib_ok :: env where
  "lib_ok = \<lparr> int_conv = (\<lambda>v. Inl (TypeError ''int'')),
              VoIPPhone_init = (\<lambda>ph. None),
              phone_start = (\<lambda>ph. None),
              phone_call = (\<lambda>ph n. Inr ''call-1''),
              websocket_accept = (\<lambda>ws. None) \<rparr>"



text \<open>The configuration of the spec's scenario, and the provider \<^verbatim>\<open>__init__\<close> builds from it.\<close>

definition scenario_config :: config where
  "scenario_config = [''host'' \<mapsto> VStr ''h'', ''api_key'' \<mapsto> VStr ''u'',
                      ''auth_token'' \<mapsto> VStr ''p'', ''from_numbers'' \<mapsto> VStr ''+15551230000'']"

definition scenario_provider :: LCRProvider where
  "scenario_provider =
     \<lparr> host = VStr ''h'', port = 5060, password = VStr ''p'', username = VStr ''u'',
       from_numbers = VList [VStr ''+15551230000''], sip_client = None \<rparr>"

definition config_without_host :: config where
  "config_without_host = [''api_key'' \<mapsto> VStr ''u'', ''auth_token'' \<mapsto> VStr ''p'']"

section \<open>Results\<close>

text \<open>
  C5: for every payload, \<^verbatim>\<open>parse_inbound_webhook\<close> fails with
  \<^verbatim>\<open>NotImplementedError\<close> (the spec's NotSupported); it returns no data and changes
  nothing.
\<close>

theorem parse_inbound_webhook_not_supported:
  "parse_inbound_webhook webhook_data w = (Inl NotImplementedError, w)"
  by (simp add: parse_inbound_webhook_def)

text \<open>
  C6: for every call id, \<^verbatim>\<open>get_call_status\<close> does not fail and returns the
  dictionary with status \<^verbatim>\<open>"in-progress"\<close> and the given call id; the provider and
  the trace of effects are unchanged, so polling twice gives the same answer.
\<close>

theorem get_call_status_optimistic:
  "get_call_status cid w =
     (Inr [(''status'', VStr ''in-progress''), (''call_id'', VStr cid)], w)
   \<and> get_call_status cid (snd (get_call_status cid w)) = get_call_status cid w"
  by (simp add: get_call_status_def)

text \<open>
  C8: for every payload and headers, \<^verbatim>\<open>can_handle_webhook\<close> returns
  \<^verbatim>\<open>False\<close> without failing and without any effect: this backend claims no payload.
\<close>

theorem can_handle_webhook_never_claims:
  "can_handle_webhook webhook_data headers w = (Inr False, w)"
  by (simp add: can_handle_webhook_def)

text \<open>
  C10: for every call id, \<^verbatim>\<open>get_call_cost\<close> returns the constant dictionary
  \<^verbatim>\<open>{"cost_usd": 0.0}\<close>, with no effect.
\<close>

theorem get_call_cost_zero:
  "get_call_cost cid w = (Inr [(''cost_usd'', VFloat 0)], w)"
  by (simp add: get_call_cost_def)






text \<open>
  The converse view: whenever \<^verbatim>\<open>initiate_call\<close> returns a result, the dial it made
  returned the call id of that result; and \<^verbatim>\<open>_get_sip_client\<close> never returns
  \<^verbatim>\<open>None\<close>, so the dial is always made on a session.
\<close>

lemma get_sip_client_never_none:
  "fst (get_sip_client E w) \<noteq> Inr None"
  by (auto simp: get_sip_client_def create_sip_client_def validate_config_def emit_def Let_def
      split: option.splits if_splits)

lemma initiate_call_result_only_after_dial:
  assumes "fst (initiate_call E to_number webhook_url workflow_run_id w) = Some (Inr r)"
  shows "\<exists>ph. phone_call E ph to_number = Inr (call_id r) \<and> status r = ''ringing''
          \<and> Dial ph to_number \<in> set (trace (snd (initiate_call E to_number webhook_url workflow_run_id w)))"
  using assms
  by (auto simp: initiate_call_def run_in_executor_def do_sip_call_def dial_phone_def emit_def
      Let_def split: prod.splits sum.splits option.splits)

text \<open>
  C2: \<^verbatim>\<open>validate_config\<close> returns a boolean and leaves the provider and the trace
  of effects as they were (no session, no I/O); the boolean is \<^verbatim>\<open>False\<close> exactly when
  the host, the user name or the password is empty, that is, false in Python's
  truth-value test (\<^verbatim>\<open>None\<close> or the empty string).
\<close>

theorem validate_config_pure_iff:
  "\<exists>b. validate_config w = (Inr b, w) \<and>
        (b = False \<longleftrightarrow> \<not> truthy (host (self w)) \<or> \<not> truthy (username (self w))
                          \<or> \<not> truthy (password (self w)))"
  by (auto simp: validate_config_def py_and_def)

text \<open>
  An empty user name: the check answers \<^verbatim>\<open>False\<close>.
\<close>

theorem validate_config_pure_iff_witness:
  "validate_config \<lparr>self = scenario_provider\<lparr>username := VStr ''''\<rparr>, trace = []\<rparr>
     = (Inr False, \<lparr>self = scenario_provider\<lparr>username := VStr ''''\<rparr>, trace = []\<rparr>)"
  using validate_config_pure_iff [of "\<lparr>self = scenario_provider\<lparr>username := VStr ''''\<rparr>, trace = []\<rparr>"]
  by (auto simp: scenario_provider_def)

text \<open>
  Facts about \<^verbatim>\<open>__init__\<close> and the credential check used for C3.
\<close>

lemma init_fields:
  assumes "LCRProvider_init E config = Inr p"
  shows "host p = dict_get config ''host'' (VStr ''trunksip11.lcrcom.es'')"
    and "username p = dict_get config ''api_key'' VNone"
    and "password p = dict_get config ''auth_token'' VNone"
    and "sip_client p = None"
  using assms by (auto simp: LCRProvider_init_def Let_def split: sum.splits)

lemma create_invalid:
  assumes "\<not> (truthy (host (self w)) \<and> truthy (password (self w)) \<and> truthy (username (self w)))"
  shows "create_sip_client E w = (Some (ValueError ''LCR SIP credentials missing''), w)"
  using assms by (auto simp: create_sip_client_def validate_config_def py_and_def)

text \<open>
  C3, as stated, fails where the host is missing: \<^verbatim>\<open>__init__\<close> falls back to the
  default host \<^verbatim>\<open>trunksip11.lcrcom.es\<close>, the check passes, and a session is created.
\<close>

theorem get_sip_client_missing_host_counterexample:
  "session_for_config lib_ok config_without_host =
     (Inr (Some (VoIPPhone 0 (VStr ''trunksip11.lcrcom.es'') 5060 (VStr ''u'') (VStr ''p'') ''0.0.0.0'')),
      [Log INFO ''Initializing SIP Client for %s@%s...'' [AVal (VStr ''u''), AVal (VStr ''trunksip11.lcrcom.es'')],
       NewPhone (VoIPPhone 0 (VStr ''trunksip11.lcrcom.es'') 5060 (VStr ''u'') (VStr ''p'') ''0.0.0.0''),
       StartPhone (VoIPPhone 0 (VStr ''trunksip11.lcrcom.es'') 5060 (VStr ''u'') (VStr ''p'') ''0.0.0.0''),
       Log SUCCESS ''SIP Client started'' []])"
  by (simp add: session_for_config_def config_without_host_def LCRProvider_init_def dict_get_def
      py_int_def get_sip_client_def create_sip_client_def validate_config_def py_and_def emit_def
      lib_ok_def Let_def)

text \<open>
  C3, amended: for every configuration whose host is present but empty, or whose user
  name (\<^verbatim>\<open>api_key\<close>) or password (\<^verbatim>\<open>auth_token\<close>) is missing or empty, a provider
  built from it fails \<^verbatim>\<open>_get_sip_client\<close> with
  \<^verbatim>\<open>ValueError("LCR SIP credentials missing")\<close> (the spec's ConfigInvalid); the
  provider and the trace are unchanged, so nothing was logged or sent and no session was
  created.
\<close>

theorem get_sip_client_config_invalid:
  assumes init: "LCRProvider_init E config = Inr p"
    and bad: "(\<exists>v. config ''host'' = Some v \<and> \<not> truthy v)
              \<or> (case config ''api_key'' of None \<Rightarrow> True | Some v \<Rightarrow> \<not> truthy v)
              \<or> (case config ''auth_token'' of None \<Rightarrow> True | Some v \<Rightarrow> \<not> truthy v)"
  shows "get_sip_client E \<lparr>self = p, trace = tr\<rparr>
           = (Inl (ValueError ''LCR SIP credentials missing''), \<lparr>self = p, trace = tr\<rparr>)"
proof -
  let ?w = "\<lparr>self = p, trace = tr\<rparr>"
  from bad have "\<not> (truthy (host p) \<and> truthy (password p) \<and> truthy (username p))"
    unfolding init_fields [OF init] dict_get_def by (auto split: option.splits)
  then have "create_sip_client E ?w = (Some (ValueError ''LCR SIP credentials missing''), ?w)"
    by (intro create_invalid) simp
  moreover have "sip_client (self ?w) = None"
    using init_fields(4) [OF init] by simp
  ultimately show ?thesis
    by (simp add: get_sip_client_def)
qed

text \<open>
  The scenario's configuration without its \<^verbatim>\<open>auth_token\<close>.
\<close>

theorem get_sip_client_config_invalid_witness:
  "get_sip_client lib_ok \<lparr>self = scenario_provider\<lparr>password := VNone\<rparr>, trace = []\<rparr>
     = (Inl (ValueError ''LCR SIP credentials missing''),
        \<lparr>self = scenario_provider\<lparr>password := VNone\<rparr>, trace = []\<rparr>)"
proof -
  have "LCRProvider_init lib_ok (scenario_config(''auth_token'' := None))
          = Inr (scenario_provider\<lparr>password := VNone\<rparr>)"
    by (simp add: LCRProvider_init_def scenario_config_def scenario_provider_def dict_get_def py_int_def)
  then show ?thesis
    by (rule get_sip_client_config_invalid) (simp add: scenario_config_def)
qed

text \<open>
  One thread running alone through the three steps does what the method does: the
  thread model and \<open>get_sip_client\<close> agree.
\<close>

lemma single_thread_is_get_sip_client:
  "run_schedule E [0, 0, 0] ([L61], w) = ([Returned (fst (get_sip_client E w))], snd (get_sip_client E w))"
  by (auto simp: get_sip_client_def split: prod.splits option.splits)

text \<open>
  C4, as stated, fails: two workers that both pass the test of line 61 before either
  assigns the attribute each construct and start a SIP client.
\<close>

theorem concurrent_first_use_two_sessions_counterexample:
  "sessions_created (trace (snd (run_schedule lib_ok [0, 1, 0, 1, 0, 1]
      ([L61, L61], \<lparr>self = scenario_provider, trace = []\<rparr>)))) = 2"
  by (simp add: create_sip_client_def validate_config_def py_and_def emit_def
      scenario_provider_def lib_ok_def Let_def)

text \<open>
  Facts about repeated calls used for C4: calls made one after the other create one
  session, and once the attribute is set no step of any thread changes anything.
\<close>

lemma sessions_created_append:
  "sessions_created (xs @ ys) = sessions_created xs + sessions_created ys"
  by (induction xs rule: sessions_created.induct) simp_all

lemma get_sip_client_cached:
  "sip_client (self w) = Some ph \<Longrightarrow> get_sip_client E w = (Inr (Some ph), w)"
  by (simp add: get_sip_client_def)

lemma get_sip_client_n_cached:
  "sip_client (self w) = Some ph \<Longrightarrow> get_sip_client_n E n w = (replicate n (Inr (Some ph)), w)"
  by (induction n) (simp_all add: get_sip_client_cached)

lemma create_sip_client_first:
  assumes "truthy (host (self w))" "truthy (password (self w))" "truthy (username (self w))"
    and "ph = VoIPPhone (sessions_created (trace w)) (host (self w)) (port (self w))
                (username (self w)) (password (self w)) ''0.0.0.0''"
    and "VoIPPhone_init E ph = None" "phone_start E ph = None"
  shows "\<exists>w1. create_sip_client E w = (None, w1) \<and> sip_client (self w1) = Some ph
            \<and> sessions_created (trace w1) = Suc (sessions_created (trace w))"
  using assms
  by (simp add: create_sip_client_def validate_config_def py_and_def emit_def
      Let_def sessions_created_append)

lemma get_sip_client_sequential_one_session:
  assumes "sip_client (self w) = None"
    and "truthy (host (self w))" "truthy (password (self w))" "truthy (username (self w))"
    and "ph = VoIPPhone (sessions_created (trace w)) (host (self w)) (port (self w))
                (username (self w)) (password (self w)) ''0.0.0.0''"
    and "VoIPPhone_init E ph = None" "phone_start E ph = None"
  shows "fst (get_sip_client_n E (Suc n) w) = replicate (Suc n) (Inr (Some ph))
         \<and> sessions_created (trace (snd (get_sip_client_n E (Suc n) w)))
             = Suc (sessions_created (trace w))"
proof -
  from create_sip_client_first [OF assms(2-7)] obtain w1 where
    created: "create_sip_client E w = (None, w1)"
    and cached: "sip_client (self w1) = Some ph"
    and count: "sessions_created (trace w1) = Suc (sessions_created (trace w))"
    by blast
  have first: "get_sip_client E w = (Inr (Some ph), w1)"
    using assms(1) created cached by (simp add: get_sip_client_def)
  have "get_sip_client_n E n w1 = (replicate n (Inr (Some ph)), w1)"
    using cached by (rule get_sip_client_n_cached)
  with first count show ?thesis by simp
qed

lemma thread_step_cached:
  assumes "sip_client (self w) = Some ph" and "sees_session ph p"
  shows "snd (thread_step E p w) = w \<and> sees_session ph (fst (thread_step E p w))"
  using assms by (cases p) simp_all

lemma list_all_update:
  "list_all P xs \<Longrightarrow> P x \<Longrightarrow> list_all P (xs[i := x])"
  by (induction xs arbitrary: i) (auto split: nat.splits)

lemma run_schedule_cached:
  assumes "sip_client (self w) = Some ph" and "list_all (sees_session ph) pcs"
  shows "snd (run_schedule E sched (pcs, w)) = w
         \<and> list_all (sees_session ph) (fst (run_schedule E sched (pcs, w)))"
  using assms(2)
proof (induction sched arbitrary: pcs)
  case Nil
  then show ?case by simp
next
  case (Cons i sched)
  show ?case
  proof (cases "i < length pcs")
    case False
    then show ?thesis using Cons by simp
  next
    case True
    with Cons.prems have here: "sees_session ph (pcs ! i)"
      by (simp add: list_all_length)
    obtain p' w' where step: "thread_step E (pcs ! i) w = (p', w')"
      by (cases "thread_step E (pcs ! i) w")
    with thread_step_cached [OF assms(1) here, of E]
    have "w' = w" and "sees_session ph p'" by simp_all
    with Cons.prems have "list_all (sees_session ph) (pcs[i := p'])"
      by (simp add: list_all_update)
    from Cons.IH [OF this] step True \<open>w' = w\<close> show ?thesis by simp
  qed
qed

text \<open>
  C4, amended: for every valid identity whose client can be constructed and started, and
  any number \<open>n\<close> of callers of \<^verbatim>\<open>_get_sip_client\<close>: when one caller \<open>i\<close> makes the
  test of line 61 and runs the body of lines 62-78 before any other caller makes the
  test, then however the \<open>n\<close> callers are scheduled from there on, exactly one session
  is created, it is the one held by the provider, and every caller that has returned
  has returned that session. Only the overlap before the first assignment is excluded.
\<close>

theorem one_session_after_first_assignment:
  assumes "i < n"
    and "sip_client (self w) = None"
    and "truthy (host (self w))" "truthy (password (self w))" "truthy (username (self w))"
    and "ph = VoIPPhone (sessions_created (trace w)) (host (self w)) (port (self w))
                (username (self w)) (password (self w)) ''0.0.0.0''"
    and "VoIPPhone_init E ph = None" "phone_start E ph = None"
  shows "sessions_created (trace (snd (run_schedule E (i # i # sched) (replicate n L61, w))))
           = Suc (sessions_created (trace w))
         \<and> sip_client (self (snd (run_schedule E (i # i # sched) (replicate n L61, w)))) = Some ph
         \<and> list_all (sees_session ph) (fst (run_schedule E (i # i # sched) (replicate n L61, w)))"
proof -
  from create_sip_client_first [OF assms(3-8)] obtain w1 where
    created: "create_sip_client E w = (None, w1)"
    and cached: "sip_client (self w1) = Some ph"
    and count: "sessions_created (trace w1) = Suc (sessions_created (trace w))"
    by blast
  let ?pcs = "(replicate n L61)[i := L80]"
  have first: "run_schedule E (i # i # sched) (replicate n L61, w) = run_schedule E sched (?pcs, w1)"
    using assms(1,2) created by simp
  have "list_all (sees_session ph) ?pcs"
    by (rule list_all_update) (simp_all add: list_all_length)
  from run_schedule_cached [OF cached this, of E sched] first cached count
  show ?thesis by simp
qed

text \<open>
  Three callers on the scenario's provider: caller 1 creates the session, then the
  three overlap; one session is created and all three return it.
\<close>

theorem one_session_after_first_assignment_witness:
  "sessions_created (trace (snd (run_schedule lib_ok [1, 1, 0, 2, 2, 1, 0]
        (replicate 3 L61, \<lparr>self = scenario_provider, trace = []\<rparr>)))) = Suc 0
   \<and> fst (run_schedule lib_ok [1, 1, 0, 2, 2, 1, 0]
        (replicate 3 L61, \<lparr>self = scenario_provider, trace = []\<rparr>))
     = replicate 3 (Returned (Inr (Some (VoIPPhone 0 (VStr ''h'') 5060 (VStr ''u'') (VStr ''p'') ''0.0.0.0''))))"
proof -
  have count: "sessions_created (trace (snd (run_schedule lib_ok [1, 1, 0, 2, 2, 1, 0]
        (replicate 3 L61, \<lparr>self = scenario_provider, trace = []\<rparr>)))) = Suc 0"
    using one_session_after_first_assignment [of 1 3 "\<lparr>self = scenario_provider, trace = []\<rparr>"
      "VoIPPhone 0 (VStr ''h'') 5060 (VStr ''u'') (VStr ''p'') ''0.0.0.0''" lib_ok "[0, 2, 2, 1, 0]"]
    by (simp add: scenario_provider_def lib_ok_def)
  have "fst (run_schedule lib_ok [1, 1, 0, 2, 2, 1, 0]
        (replicate 3 L61, \<lparr>self = scenario_provider, trace = []\<rparr>))
     = replicate 3 (Returned (Inr (Some (VoIPPhone 0 (VStr ''h'') 5060 (VStr ''u'') (VStr ''p'') ''0.0.0.0''))))"
    by (simp add: create_sip_client_def validate_config_def py_and_def emit_def
        scenario_provider_def lib_ok_def Let_def numeral_3_eq_3)
  with count show ?thesis by simp
qed

text \<open>
  C7: for every configuration whose \<^verbatim>\<open>from_numbers\<close> is one string \<open>s\<close>,
  \<^verbatim>\<open>__init__\<close> either raises what \<^verbatim>\<open>int\<close> raises on the port, so that no
  provider exists, or builds the provider whose \<^verbatim>\<open>from_numbers\<close> is the list of
  that one string, which \<^verbatim>\<open>get_available_phone_numbers\<close> returns; the scenario's
  configuration, which has no port, yields \<^verbatim>\<open>["+15551230000"]\<close>.
\<close>

theorem from_numbers_string_wrapped:
  "(config ''from_numbers'' = Some (VStr s) \<longrightarrow>
      (case py_int E (dict_get config ''port'' (VInt 5060)) of
         Inl e \<Rightarrow> LCRProvider_init E config = Inl e
       | Inr n \<Rightarrow>
           LCRProvider_init E config =
             Inr \<lparr> host = dict_get config ''host'' (VStr ''trunksip11.lcrcom.es''), port = n,
                   password = dict_get config ''auth_token'' VNone,
                   username = dict_get config ''api_key'' VNone,
                   from_numbers = VList [VStr s], sip_client = None \<rparr>
           \<and> (\<exists>p. LCRProvider_init E config = Inr p
                  \<and> get_available_phone_numbers \<lparr>self = p, trace = tr\<rparr>
                      = (Inr (VList [VStr s]), \<lparr>self = p, trace = tr\<rparr>))))
   \<and> LCRProvider_init E scenario_config = Inr scenario_provider
   \<and> get_available_phone_numbers \<lparr>self = scenario_provider, trace = tr\<rparr>
        = (Inr (VList [VStr ''+15551230000'']), \<lparr>self = scenario_provider, trace = tr\<rparr>)"
  by (auto simp: LCRProvider_init_def get_available_phone_numbers_def dict_get_def py_int_def
        scenario_config_def scenario_provider_def Let_def split: sum.splits)

text \<open>
  The general statement at the scenario's configuration: the port is the default, the
  provider is built, and its numbers are the one string.
\<close>

theorem from_numbers_string_wrapped_witness:
  "\<exists>p. LCRProvider_init lib_ok scenario_config = Inr p
       \<and> get_available_phone_numbers \<lparr>self = p, trace = []\<rparr>
           = (Inr (VList [VStr ''+15551230000'']), \<lparr>self = p, trace = []\<rparr>)"
proof -
  have a: "scenario_config ''from_numbers'' = Some (VStr ''+15551230000'')"
    by (simp add: scenario_config_def)
  have b: "py_int lib_ok (dict_get scenario_config ''port'' (VInt 5060)) = Inr 5060"
    by (simp add: py_int_def dict_get_def scenario_config_def)
  note general = from_numbers_string_wrapped [of scenario_config "''+15551230000''" lib_ok "[]",
      THEN conjunct1, THEN mp, OF a]
  show ?thesis
    using general unfolding b sum.case by (rule conjunct2)
qed

text \<open>
  C9, as stated, fails: after the accept, the handler only writes a warning to the local
  log and returns. It sends nothing on the socket and does not close it.
\<close>

theorem handle_websocket_no_signal_counterexample:
  "fst (handle_websocket lib_ok 1 10 20 30 \<lparr>self = scenario_provider, trace = []\<rparr>) = Inr ()
   \<and> filter (is_peer_signal 1)
        (trace (snd (handle_websocket lib_ok 1 10 20 30 \<lparr>self = scenario_provider, trace = []\<rparr>))) = []"
  by (simp add: handle_websocket_def emit_def lib_ok_def)

text \<open>
  C9, amended: for every media-bridging socket whose accept succeeds,
  \<^verbatim>\<open>handle_websocket\<close> accepts the connection, logs a warning that media bridging is
  not supported, and returns; these are its only effects.
\<close>

theorem handle_websocket_accept_and_warn:
  assumes "websocket_accept E ws = None"
  shows "handle_websocket E ws workflow_id user_id workflow_run_id w
           = (Inr (), w\<lparr>trace := trace w @ [WsAccept ws,
                Log WARNING ''LCR SIP does not support WebSocket media bridging yet.'' []]\<rparr>)"
  using assms by (simp add: handle_websocket_def emit_def)

text \<open>
  A connection accepted on the scenario's provider.
\<close>

theorem handle_websocket_accept_and_warn_witness:
  "handle_websocket lib_ok 1 10 20 30 \<lparr>self = scenario_provider, trace = []\<rparr>
     = (Inr (), \<lparr>self = scenario_provider,
                 trace = [WsAccept 1,
                   Log WARNING ''LCR SIP does not support WebSocket media bridging yet.'' []]\<rparr>)"
  using handle_websocket_accept_and_warn [of lib_ok 1 10 20 30 "\<lparr>self = scenario_provider, trace = []\<rparr>"]
  by (simp add: lib_ok_def)

end
